theory Spec2Isabelle
  imports Complex_Main "HOL-Library.Sublist"
begin

section \<open>Values shared by the concepts\<close>

text \<open>
  An \<open>ObjectId\<close> is an opaque, comparable identifier. The source compares identifiers
  through \<open>toString()\<close>, which is injective, so equality of identifiers is equality here.
\<close>

type_synonym ObjectId = nat

text \<open>
  A TypeScript \<open>number\<close> is an IEEE 754 double. \<open>Fin m e\<close> is the finite double of value
  \<open>m * 2 ^ e\<close>; \<open>NaN\<close> is a value of its own, because every comparison with it is false
  (\<open>Number(amount)\<close> in routes.ts yields it for a non-numeric request string).
  Arithmetic rounds to the nearest double of 53 significant bits, ties to the even
  significand, as the hardware does. The infinities, the sign of zero and the limits of the
  exponent are not modelled: the values computed here stay far inside the exponent range.
\<close>

datatype number = NaN | Fin int int

definition pow2 :: "int \<Rightarrow> rat" where
  "pow2 e = (if 0 \<le> e then 2 ^ nat e else 1 / 2 ^ nat (- e))"

fun valueOf :: "number \<Rightarrow> rat" where
  "valueOf (Fin m e) = of_int m * pow2 e"
| "valueOf NaN = 0"

fun bitLength :: "nat \<Rightarrow> nat" where
  "bitLength n = (if n = 0 then 0 else Suc (bitLength (n div 2)))"

text \<open>\<open>shiftFrac a b s\<close> is the fraction \<open>(a / b) / 2 ^ s\<close>, numerator and denominator.\<close>

definition shiftFrac :: "int \<Rightarrow> int \<Rightarrow> int \<Rightarrow> int \<times> int" where
  "shiftFrac a b s = (if 0 \<le> s then (a, b * 2 ^ nat s) else (a * 2 ^ nat (- s), b))"

text \<open>The integer nearest to \<open>n / d\<close> for \<open>0 < d\<close>, a tie going to the even one.\<close>

definition roundHalfEven :: "int \<Rightarrow> int \<Rightarrow> int" where
  "roundHalfEven n d =
     (let q = n div d; r = n mod d
      in if 2 * r < d then q else if d < 2 * r then q + 1 else if even q then q else q + 1)"

text \<open>For \<open>0 < a\<close> and \<open>0 < b\<close>, the \<open>e\<close> with \<open>2 ^ e \<le> a / b < 2 ^ (e + 1)\<close>.\<close>

definition exponentOf :: "int \<Rightarrow> int \<Rightarrow> int" where
  "exponentOf a b =
     (let e0 = int (bitLength (nat a)) - int (bitLength (nat b))
      in case shiftFrac a b e0 of (n, d) \<Rightarrow> if d \<le> n then e0 else e0 - 1)"

text \<open>The double nearest to \<open>(a / b) * 2 ^ k\<close>, for \<open>0 < b\<close>.\<close>

definition nearestDouble :: "int \<Rightarrow> int \<Rightarrow> int \<Rightarrow> number" where
  "nearestDouble a b k =
     (if a = 0 then Fin 0 0
      else let u = exponentOf \<bar>a\<bar> b - 52
           in case shiftFrac a b u of (n, d) \<Rightarrow> Fin (roundHalfEven n d) (u + k))"

fun js_add :: "number \<Rightarrow> number \<Rightarrow> number" where
  "js_add (Fin m1 e1) (Fin m2 e2) =
     (let e = min e1 e2
      in nearestDouble (m1 * 2 ^ nat (e1 - e) + m2 * 2 ^ nat (e2 - e)) 1 e)"
| "js_add _ _ = NaN"

fun js_mul :: "number \<Rightarrow> number \<Rightarrow> number" where
  "js_mul (Fin m1 e1) (Fin m2 e2) = nearestDouble (m1 * m2) 1 (e1 + e2)"
| "js_mul _ _ = NaN"

text \<open>
  Division by zero gives an infinity in JavaScript (\<open>NaN\<close> for \<open>0 / 0\<close>); with no infinities
  here it is \<open>NaN\<close> throughout. The source divides by a count it has checked to be non-zero
  and by the constant 100 only.
\<close>

fun js_div :: "number \<Rightarrow> number \<Rightarrow> number" where
  "js_div (Fin m1 e1) (Fin m2 e2) =
     (if m2 = 0 then NaN else nearestDouble (m1 * sgn m2) \<bar>m2\<bar> (e1 - e2))"
| "js_div _ _ = NaN"

fun js_lt :: "number \<Rightarrow> number \<Rightarrow> bool" where
  "js_lt (Fin m1 e1) (Fin m2 e2) = (valueOf (Fin m1 e1) < valueOf (Fin m2 e2))"
| "js_lt _ _ = False"

fun js_ge :: "number \<Rightarrow> number \<Rightarrow> bool" where
  "js_ge (Fin m1 e1) (Fin m2 e2) = (valueOf (Fin m2 e2) \<le> valueOf (Fin m1 e1))"
| "js_ge _ _ = False"

text \<open>
  \<open>Math.round\<close>: the integer nearest to the argument, a tie going up; that is
  \<open>\<lfloor>m * 2 ^ e + 1 / 2\<rfloor>\<close>, computed exactly.
\<close>

fun Math_round :: "number \<Rightarrow> number" where
  "Math_round (Fin m e) =
     (if 0 \<le> e then Fin m e else Fin ((m + 2 ^ nat (- e - 1)) div 2 ^ nat (- e)) 0)"
| "Math_round NaN = NaN"

text \<open>A count (an array length) as a number; exact below \<open>2 ^ 53\<close>.\<close>

definition ofCount :: "nat \<Rightarrow> number" where
  "ofCount n = Fin (int n) 0"

datatype error =
    NotFoundError
  | NotAllowedError
  | ExistingUserPointsError
  | InvalidPointAwardError

section \<open>The document store\<close>

text \<open>
  Modelled from the spec: the document collection (\<open>DocCollection\<close> of framework/doc,
  which is not among the sources). The spec gives it as \<open>findByUser(user) -> record | absent\<close>,
  \<open>create(user) -> record\<close> and \<open>update(user, partialFields)\<close>, with one record per user and
  read-after-write consistency. A collection is therefore a map from the user identifier to
  the user's document; what \<open>readOne\<close> returns is a copy, so changing it in memory does not
  change the collection until \<open>partialUpdateOne\<close> writes it back. An update or a deletion that
  matches no document does nothing and does not fail.
\<close>

type_synonym 'd DocCollection = "ObjectId \<rightharpoonup> 'd"

definition readOne :: "'d DocCollection \<Rightarrow> ObjectId \<Rightarrow> 'd option" where
  "readOne c u = c u"

definition createOne :: "'d DocCollection \<Rightarrow> ObjectId \<Rightarrow> 'd \<Rightarrow> 'd DocCollection" where
  "createOne c u d = (case c u of None \<Rightarrow> c(u \<mapsto> d) | Some _ \<Rightarrow> c)"

definition partialUpdateOne :: "'d DocCollection \<Rightarrow> ObjectId \<Rightarrow> ('d \<Rightarrow> 'd) \<Rightarrow> 'd DocCollection" where
  "partialUpdateOne c u f = (case c u of None \<Rightarrow> c | Some d \<Rightarrow> c(u \<mapsto> f d))"

definition deleteOne :: "'d DocCollection \<Rightarrow> ObjectId \<Rightarrow> 'd DocCollection" where
  "deleteOne c u = c(u := None)"

section \<open>TrackingConcept: the data\<close>

datatype Difficulty = Difficult | JustRight | Easy

record Task =
  name :: string
  description :: string
  reps :: number
  sets :: "number option"
  weight :: "number option"
  completed :: bool
  previousDifficulty :: Difficulty

text \<open>
  A \<open>Date\<close> in local time: the number of the calendar day (day 0 is Thursday,
  1 January 1970) and the milliseconds elapsed within that day.
\<close>

record Date =
  dayNumber :: int
  msOfDay :: nat

record ProgressEntry =
  weekStart :: Date
  completedTasks :: "Task list"

record TrackingDoc =
  user :: ObjectId
  userGoal :: string
  weeklyTasks :: "Task list"
  progressHistory :: "ProgressEntry list"

type_synonym TrackingStore = "TrackingDoc DocCollection"

section \<open>TrackingConcept: the operations\<close>

text \<open>
  Every operation takes the collection and returns its result together with the collection
  afterwards. A \<open>throw\<close> is the result \<open>Inl\<close> of the error.

  \<open>Array.prototype.find\<close> returns the first element that satisfies the predicate, as a
  reference into the array: assigning to a field of the found task changes that element of
  \<open>weeklyTasks\<close> in place. \<open>mutateFound P f xs\<close> is the array after such an assignment \<open>f\<close>.
\<close>

primrec mutateFound :: "('a \<Rightarrow> bool) \<Rightarrow> ('a \<Rightarrow> 'a) \<Rightarrow> 'a list \<Rightarrow> 'a list" where
  "mutateFound P f [] = []"
| "mutateFound P f (x # xs) = (if P x then f x # xs else x # mutateFound P f xs)"

definition getTrackingDoc :: "TrackingStore \<Rightarrow> ObjectId \<Rightarrow> error + TrackingDoc" where
  "getTrackingDoc c u =
     (case readOne c u of None \<Rightarrow> Inl NotFoundError | Some trackingDoc \<Rightarrow> Inr trackingDoc)"

definition createTrackingDoc :: "TrackingStore \<Rightarrow> ObjectId \<Rightarrow> TrackingDoc option \<times> TrackingStore" where
  "createTrackingDoc c u =
     (case readOne c u of
        Some trackingDoc \<Rightarrow> (Some trackingDoc, c)
      | None \<Rightarrow>
          (let newDoc = \<lparr>user = u, userGoal = '''', weeklyTasks = [], progressHistory = []\<rparr>;
               c' = createOne c u newDoc
           in (readOne c' u, c')))"

definition createTask ::
  "TrackingStore \<Rightarrow> ObjectId \<Rightarrow> string \<Rightarrow> string \<Rightarrow> number \<Rightarrow> number option \<Rightarrow> number option
     \<Rightarrow> (error + (string \<times> Task) option) \<times> TrackingStore" where
  "createTask c u taskName taskDescription reps' sets' startingWeight =
     (case createTrackingDoc c u of
        (None, c1) \<Rightarrow> (Inr None, c1)
      | (Some trackingDoc, c1) \<Rightarrow>
          (let newTask = \<lparr>name = taskName, description = taskDescription, reps = reps',
                          sets = sets', weight = startingWeight, completed = False,
                          previousDifficulty = JustRight\<rparr>;
               tasks = weeklyTasks trackingDoc @ [newTask]
           in (Inr (Some (''Task successfully created!'', newTask)),
               partialUpdateOne c1 u (\<lambda>d. d\<lparr>weeklyTasks := tasks\<rparr>))))"

text \<open>
  The three conditional assignments of \<open>updateTask\<close>, in their order; an argument that is
  \<open>undefined\<close> is \<open>None\<close>, and any other value, zero too, is assigned.
\<close>

definition assignFields :: "number option \<Rightarrow> number option \<Rightarrow> number option \<Rightarrow> Task \<Rightarrow> Task" where
  "assignFields reps' sets' weight' task =
     (let t1 = (case reps' of None \<Rightarrow> task | Some r \<Rightarrow> task\<lparr>reps := r\<rparr>);
          t2 = (case sets' of None \<Rightarrow> t1 | Some s \<Rightarrow> t1\<lparr>sets := Some s\<rparr>);
          t3 = (case weight' of None \<Rightarrow> t2 | Some w \<Rightarrow> t2\<lparr>weight := Some w\<rparr>)
      in t3)"

definition updateTask ::
  "TrackingStore \<Rightarrow> ObjectId \<Rightarrow> string \<Rightarrow> number option \<Rightarrow> number option \<Rightarrow> number option
     \<Rightarrow> (error + (string \<times> Task)) \<times> TrackingStore" where
  "updateTask c u taskName reps' sets' weight' =
     (case getTrackingDoc c u of
        Inl e \<Rightarrow> (Inl e, c)
      | Inr trackingDoc \<Rightarrow>
          (case find (\<lambda>task. name task = taskName) (weeklyTasks trackingDoc) of
             None \<Rightarrow> (Inl NotFoundError, c)
           | Some task \<Rightarrow>
               (let tasks = mutateFound (\<lambda>task. name task = taskName)
                              (assignFields reps' sets' weight') (weeklyTasks trackingDoc)
                in (Inr (''Task successfully updated!'', assignFields reps' sets' weight' task),
                    partialUpdateOne c u (\<lambda>d. d\<lparr>weeklyTasks := tasks\<rparr>)))))"

definition deleteTask :: "TrackingStore \<Rightarrow> ObjectId \<Rightarrow> string \<Rightarrow> (error + string) \<times> TrackingStore" where
  "deleteTask c u taskName =
     (case getTrackingDoc c u of
        Inl e \<Rightarrow> (Inl e, c)
      | Inr trackingDoc \<Rightarrow>
          (let tasks = filter (\<lambda>task. name task \<noteq> taskName) (weeklyTasks trackingDoc)
           in (Inr ''Task successfully deleted!'',
               partialUpdateOne c u (\<lambda>d. d\<lparr>weeklyTasks := tasks\<rparr>))))"

definition setUserGoal :: "TrackingStore \<Rightarrow> ObjectId \<Rightarrow> string \<Rightarrow> (error + (string \<times> string)) \<times> TrackingStore" where
  "setUserGoal c u goal =
     (Inr (''User goal successfully updated!'', goal),
      partialUpdateOne c u (\<lambda>d. d\<lparr>userGoal := goal\<rparr>))"

definition completedMsg :: "string \<Rightarrow> bool \<Rightarrow> string" where
  "completedMsg taskName b =
     ''Task '' @ [CHR 0x27] @ taskName @ [CHR 0x27] @ '' marked as ''
       @ (if b then ''completed'' else ''incomplete'') @ ''!''"

definition setCompleted :: "TrackingStore \<Rightarrow> ObjectId \<Rightarrow> string \<Rightarrow> (error + string) \<times> TrackingStore" where
  "setCompleted c u taskName =
     (case getTrackingDoc c u of
        Inl e \<Rightarrow> (Inl e, c)
      | Inr trackingDoc \<Rightarrow>
          (case find (\<lambda>task. name task = taskName) (weeklyTasks trackingDoc) of
             None \<Rightarrow> (Inl NotFoundError, c)
           | Some task \<Rightarrow>
               (let tasks = mutateFound (\<lambda>task. name task = taskName)
                              (\<lambda>task. task\<lparr>completed := \<not> completed task\<rparr>) (weeklyTasks trackingDoc)
                in (Inr (completedMsg taskName (\<not> completed task)),
                    partialUpdateOne c u (\<lambda>d. d\<lparr>weeklyTasks := tasks\<rparr>)))))"

definition isCompleted :: "TrackingStore \<Rightarrow> ObjectId \<Rightarrow> string \<Rightarrow> error + bool" where
  "isCompleted c u taskName =
     (case getTrackingDoc c u of
        Inl e \<Rightarrow> Inl e
      | Inr trackingDoc \<Rightarrow>
          (case find (\<lambda>task. name task = taskName) (weeklyTasks trackingDoc) of
             None \<Rightarrow> Inl NotFoundError
           | Some task \<Rightarrow> Inr (completed task)))"

definition tasksCompleted :: "TrackingStore \<Rightarrow> ObjectId \<Rightarrow> error + bool" where
  "tasksCompleted c u =
     (case getTrackingDoc c u of
        Inl e \<Rightarrow> Inl e
      | Inr trackingDoc \<Rightarrow> Inr (list_all completed (weeklyTasks trackingDoc)))"

text \<open>
  The suggestion of \<open>promptChange\<close>: \<open>None\<close> is the source's \<open>null\<close>.
\<close>

definition suggestionFor :: "Difficulty \<Rightarrow> Difficulty \<Rightarrow> string \<Rightarrow> string option" where
  "suggestionFor previous currentDifficulty goal =
     (if previous = Difficult \<and> currentDifficulty = Difficult then
        (if goal = ''muscle'' \<or> goal = ''endurance'' then Some ''Consider decreasing the weight by 5 lbs.''
         else if goal = ''strength'' then Some ''Consider decreasing the reps by 2.''
         else None)
      else if previous = Easy \<and> currentDifficulty = Easy then
        (if goal = ''strength'' then Some ''Consider increasing the weight.''
         else Some ''Consider increasing the reps.'')
      else None)"

text \<open>\<open>suggestion || "No changes suggested!"\<close>: \<open>null\<close> and the empty string are falsy.\<close>

definition orDefault :: "string option \<Rightarrow> string \<Rightarrow> string" where
  "orDefault suggestion d = (case suggestion of None \<Rightarrow> d | Some s \<Rightarrow> (if s = [] then d else s))"

definition promptChange ::
  "TrackingStore \<Rightarrow> ObjectId \<Rightarrow> string \<Rightarrow> Difficulty \<Rightarrow> (error + (string \<times> Task)) \<times> TrackingStore" where
  "promptChange c u taskName currentDifficulty =
     (case getTrackingDoc c u of
        Inl e \<Rightarrow> (Inl e, c)
      | Inr trackingDoc \<Rightarrow>
          (case find (\<lambda>task. name task = taskName) (weeklyTasks trackingDoc) of
             None \<Rightarrow> (Inl NotFoundError, c)
           | Some task \<Rightarrow>
               (let goal = userGoal trackingDoc;
                    suggestion = suggestionFor (previousDifficulty task) currentDifficulty goal;
                    tasks = mutateFound (\<lambda>task. name task = taskName)
                              (\<lambda>task. task\<lparr>previousDifficulty := currentDifficulty\<rparr>)
                              (weeklyTasks trackingDoc)
                in (Inr (orDefault suggestion ''No changes suggested!'',
                         task\<lparr>previousDifficulty := currentDifficulty\<rparr>),
                    partialUpdateOne c u (\<lambda>d. d\<lparr>weeklyTasks := tasks\<rparr>)))))"

text \<open>
  \<open>getStartOfWeek\<close>: \<open>getDay()\<close> is the day of the week, 0 for Sunday; \<open>setDate(getDate() - day)\<close>
  moves the date back by that many calendar days (a day of the month below 1 runs into the
  previous month) and keeps the time of day.
\<close>

definition getDay :: "Date \<Rightarrow> int" where
  "getDay date = (dayNumber date + 4) mod 7"

definition getStartOfWeek :: "Date \<Rightarrow> Date" where
  "getStartOfWeek date = date\<lparr>dayNumber := dayNumber date - getDay date\<rparr>"

text \<open>\<open>now\<close> is the value of \<open>new Date()\<close> at the call.\<close>

definition resetWeeklyTasks :: "TrackingStore \<Rightarrow> ObjectId \<Rightarrow> Date \<Rightarrow> (error + string) \<times> TrackingStore" where
  "resetWeeklyTasks c u now =
     (case getTrackingDoc c u of
        Inl e \<Rightarrow> (Inl e, c)
      | Inr trackingDoc \<Rightarrow>
          (let completedTasks' = filter completed (weeklyTasks trackingDoc);
               history = progressHistory trackingDoc
                           @ [\<lparr>weekStart = getStartOfWeek now, completedTasks = completedTasks'\<rparr>];
               tasks = map (\<lambda>task. task\<lparr>completed := False\<rparr>) (weeklyTasks trackingDoc)
           in (Inr ''Weekly tasks reset and progress archived!'',
               partialUpdateOne c u (\<lambda>d. d\<lparr>weeklyTasks := tasks, progressHistory := history\<rparr>))))"

definition getProgressHistory :: "TrackingStore \<Rightarrow> ObjectId \<Rightarrow> error + ProgressEntry list" where
  "getProgressHistory c u =
     (case getTrackingDoc c u of Inl e \<Rightarrow> Inl e | Inr trackingDoc \<Rightarrow> Inr (progressHistory trackingDoc))"

definition getTasks :: "TrackingStore \<Rightarrow> ObjectId \<Rightarrow> error + Task list" where
  "getTasks c u =
     (case getTrackingDoc c u of Inl e \<Rightarrow> Inl e | Inr trackingDoc \<Rightarrow> Inr (weeklyTasks trackingDoc))"

definition getCompletedPercentage :: "TrackingStore \<Rightarrow> ObjectId \<Rightarrow> error + number" where
  "getCompletedPercentage c u =
     (case getTrackingDoc c u of
        Inl e \<Rightarrow> Inl e
      | Inr trackingDoc \<Rightarrow>
          (if length (weeklyTasks trackingDoc) = 0 then Inr (Fin 0 0)
           else
             (let completedTasks' = length (filter completed (weeklyTasks trackingDoc));
                  totalTasks = length (weeklyTasks trackingDoc);
                  percentage = js_mul (js_div (ofCount completedTasks') (ofCount totalTasks)) (Fin 100 0)
              in Inr (js_div (Math_round (js_mul percentage (Fin 100 0))) (Fin 100 0)))))"

section \<open>PointingConcept, the version that tracks verified posts\<close>

record PointDoc =
  owner :: ObjectId
  points :: number
  verifiedPosts :: "ObjectId list"

type_synonym PointStore = "PointDoc DocCollection"

text \<open>
  The field \<open>user\<close> of a \<open>PointDoc\<close> is \<open>owner\<close> here (\<open>user\<close> is the field of a
  \<open>TrackingDoc\<close>). \<open>verifiedPost\<close> is optional: \<open>None\<close> is the source's \<open>undefined\<close>.
  The check of the post changes only the document read into memory; the collection is
  written by \<open>partialUpdateOne\<close> alone, after both checks.
\<close>

definition create :: "PointStore \<Rightarrow> ObjectId \<Rightarrow> (error + PointDoc option) \<times> PointStore" where
  "create c u =
     (case readOne c u of
        Some _ \<Rightarrow> (Inl ExistingUserPointsError, c)
      | None \<Rightarrow>
          (let c' = createOne c u \<lparr>owner = u, points = Fin 0 0, verifiedPosts = []\<rparr>
           in (Inr (readOne c' u), c')))"

definition getPoints :: "PointStore \<Rightarrow> ObjectId \<Rightarrow> error + PointDoc" where
  "getPoints c u = (case readOne c u of None \<Rightarrow> Inl NotFoundError | Some result \<Rightarrow> Inr result)"

text \<open>
  The first check of \<open>awardPoints\<close>: the verified posts the document in memory holds after
  it, or the error it throws.
\<close>

definition checkVerifiedPost :: "number \<Rightarrow> ObjectId option \<Rightarrow> ObjectId list \<Rightarrow> error + ObjectId list" where
  "checkVerifiedPost amount verifiedPost posts =
     (case verifiedPost of
        None \<Rightarrow> Inr posts
      | Some post \<Rightarrow>
          (if js_ge amount (Fin 0 0) \<and> post \<notin> set posts then Inr (posts @ [post])
           else if js_lt amount (Fin 0 0) \<and> post \<in> set posts then Inr (filter (\<lambda>e. e \<noteq> post) posts)
           else Inl InvalidPointAwardError))"

definition awardPoints ::
  "PointStore \<Rightarrow> ObjectId \<Rightarrow> number \<Rightarrow> ObjectId option \<Rightarrow> (error + PointDoc option) \<times> PointStore" where
  "awardPoints c u amount verifiedPost =
     (case readOne c u of
        None \<Rightarrow> (Inl NotFoundError, c)
      | Some pointDoc \<Rightarrow>
          (case checkVerifiedPost amount verifiedPost (verifiedPosts pointDoc) of
             Inl e \<Rightarrow> (Inl e, c)
           | Inr posts \<Rightarrow>
               (if js_lt (js_add (points pointDoc) amount) (Fin 0 0) then (Inl NotAllowedError, c)
                else
                  (let c' = partialUpdateOne c u
                              (\<lambda>d. d\<lparr>points := js_add (points pointDoc) amount, verifiedPosts := posts\<rparr>)
                   in (Inr (readOne c' u), c')))))"

section \<open>Every operation as one step on the collection\<close>

text \<open>
  One call of a \<open>TrackingConcept\<close> method; \<open>run\<close> gives the collection after the call made
  for a user. The methods that only read return no collection: it is the one they were given.
\<close>

datatype TrackingOp =
    CreateTask string string number "number option" "number option"
  | UpdateTask string "number option" "number option" "number option"
  | DeleteTask string
  | SetUserGoal string
  | SetCompleted string
  | IsCompleted string
  | TasksCompleted
  | PromptChange string Difficulty
  | ResetWeeklyTasks Date
  | GetProgressHistory
  | CreateTrackingDoc
  | GetTasks
  | GetCompletedPercentage

fun run :: "TrackingOp \<Rightarrow> ObjectId \<Rightarrow> TrackingStore \<Rightarrow> TrackingStore" where
  "run (CreateTask n desc r s w) u c = snd (createTask c u n desc r s w)"
| "run (UpdateTask n r s w) u c = snd (updateTask c u n r s w)"
| "run (DeleteTask n) u c = snd (deleteTask c u n)"
| "run (SetUserGoal g) u c = snd (setUserGoal c u g)"
| "run (SetCompleted n) u c = snd (setCompleted c u n)"
| "run (IsCompleted n) u c = c"
| "run TasksCompleted u c = c"
| "run (PromptChange n cur) u c = snd (promptChange c u n cur)"
| "run (ResetWeeklyTasks now) u c = snd (resetWeeklyTasks c u now)"
| "run GetProgressHistory u c = c"
| "run CreateTrackingDoc u c = snd (createTrackingDoc c u)"
| "run GetTasks u c = c"
| "run GetCompletedPercentage u c = c"

text \<open>The archive of a user; a user without a tracking record has archived nothing.\<close>

definition historyOf :: "TrackingStore \<Rightarrow> ObjectId \<Rightarrow> ProgressEntry list" where
  "historyOf c u = (case c u of None \<Rightarrow> [] | Some d \<Rightarrow> progressHistory d)"

section \<open>Example data\<close>

definition squat :: Task where
  "squat = \<lparr>name = ''squat'', description = ''back squat'', reps = Fin 5 0, sets = Some (Fin 3 0),
             weight = Some (Fin 60 0), completed = False, previousDifficulty = Difficult\<rparr>"

definition plank :: Task where
  "plank = \<lparr>name = ''plank'', description = ''hold'', reps = Fin 1 0, sets = None,
             weight = None, completed = True, previousDifficulty = Easy\<rparr>"

definition exampleDoc :: TrackingDoc where
  "exampleDoc = \<lparr>user = 1, userGoal = ''strength'', weeklyTasks = [squat, plank],
                  progressHistory = []\<rparr>"

definition emptyDoc :: TrackingDoc where
  "emptyDoc = \<lparr>user = 2, userGoal = [], weeklyTasks = [], progressHistory = []\<rparr>"

definition exampleStore :: TrackingStore where
  "exampleStore = Map.empty(1 \<mapsto> exampleDoc, 2 \<mapsto> emptyDoc)"

definition sunday :: Date where
  "sunday = \<lparr>dayNumber = 3, msOfDay = 0\<rparr>"

definition examplePoints :: PointDoc where
  "examplePoints = \<lparr>owner = 1, points = Fin 10 0, verifiedPosts = [5]\<rparr>"

definition examplePointStore :: PointStore where
  "examplePointStore = Map.empty(1 \<mapsto> examplePoints)"

text \<open>
  160 tasks of different names, the first 23 of them completed: a list that 160 calls of
  \<open>createTask\<close> and 23 calls of \<open>setCompleted\<close> build.
\<close>

definition manyTasks :: "Task list" where
  "manyTasks =
     map (\<lambda>i. \<lparr>name = CHR ''t'' # replicate i (CHR ''x''), description = [], reps = Fin 10 0,
                sets = None, weight = None, completed = (i < 23),
                previousDifficulty = JustRight\<rparr>) [0..<160]"

section \<open>The first task of a name\<close>

lemma find_first:
  assumes "\<forall>x \<in> set pre. \<not> P x" and "P t"
  shows "find P (pre @ t # post) = Some t"
  using assms by (induction pre) auto

lemma mutateFound_first:
  assumes "\<forall>x \<in> set pre. \<not> P x" and "P t"
  shows "mutateFound P f (pre @ t # post) = pre @ f t # post"
  using assms by (induction pre) auto

lemma find_Some_split:
  assumes "find P xs = Some t"
  shows "\<exists>pre post. xs = pre @ t # post \<and> P t \<and> (\<forall>x \<in> set pre. \<not> P x)"
  using assms
proof (induction xs)
  case Nil
  then show ?case by simp
next
  case (Cons x xs)
  show ?case
  proof (cases "P x")
    case True
    with Cons.prems have "x = t" by simp
    with True have "x # xs = [] @ t # xs \<and> P t \<and> (\<forall>y \<in> set []. \<not> P y)" by simp
    then show ?thesis by blast
  next
    case False
    with Cons.prems have "find P xs = Some t" by simp
    with Cons.IH obtain pre post where
      "xs = pre @ t # post" "P t" "\<forall>y \<in> set pre. \<not> P y" by blast
    with False have "x # xs = (x # pre) @ t # post \<and> P t \<and> (\<forall>y \<in> set (x # pre). \<not> P y)"
      by simp
    then show ?thesis by blast
  qed
qed

lemma find_None_names: "(find (\<lambda>task. name task = n) ws = None) = (n \<notin> name ` set ws)"
  by (induction ws) auto

lemma find_mutateFound:
  assumes "find P xs = Some t" and "P (f t)"
  shows "find P (mutateFound P f xs) = Some (f t)"
  using assms by (induction xs) (auto split: if_splits)

lemma mutateFound_twice:
  assumes "\<And>x. P x \<Longrightarrow> P (f x)" and "\<And>x. f (f x) = x"
  shows "mutateFound P f (mutateFound P f xs) = xs"
  using assms by (induction xs) auto

section \<open>promptChange\<close>

lemma promptChange_found:
  assumes "c u = Some d" and "find (\<lambda>task. name task = n) (weeklyTasks d) = Some t"
  shows "promptChange c u n cur =
           (Inr (orDefault (suggestionFor (previousDifficulty t) cur (userGoal d)) ''No changes suggested!'',
                 t\<lparr>previousDifficulty := cur\<rparr>),
            c(u \<mapsto> d\<lparr>weeklyTasks := mutateFound (\<lambda>task. name task = n)
                        (\<lambda>task. task\<lparr>previousDifficulty := cur\<rparr>) (weeklyTasks d)\<rparr>))"
  using assms
  by (simp add: promptChange_def getTrackingDoc_def readOne_def partialUpdateOne_def)

lemma suggestion_text:
  "orDefault (suggestionFor p cur g) ''No changes suggested!'' =
     (if p = Difficult \<and> cur = Difficult then
        (if g = ''muscle'' \<or> g = ''endurance'' then ''Consider decreasing the weight by 5 lbs.''
         else if g = ''strength'' then ''Consider decreasing the reps by 2.''
         else ''No changes suggested!'')
      else if p = Easy \<and> cur = Easy then
        (if g = ''strength'' then ''Consider increasing the weight.''
         else ''Consider increasing the reps.'')
      else ''No changes suggested!'')"
  by (simp add: orDefault_def suggestionFor_def)

text \<open>
  C1. For a user with a tracking record and a task name present in the weekly tasks,
  \<open>promptChange\<close> succeeds and its message is: for Difficult after Difficult, the
  decrease-the-weight-by-5 suggestion when the goal is "muscle" or "endurance", the
  decrease-the-reps-by-2 suggestion when the goal is "strength", and no suggestion for any
  other goal; for Easy after Easy, the increase-the-weight suggestion when the goal is
  "strength" and the increase-the-reps suggestion for every other goal; no suggestion for
  every other pair of difficulties. Afterwards the task found under that name has
  \<open>previousDifficulty\<close> equal to the reported difficulty, whatever the message was.
\<close>

theorem promptChange_suggestion:
  assumes "c u = Some d" and "find (\<lambda>task. name task = n) (weeklyTasks d) = Some t"
  shows "fst (promptChange c u n cur) =
           Inr (if previousDifficulty t = Difficult \<and> cur = Difficult then
                  (if userGoal d = ''muscle'' \<or> userGoal d = ''endurance''
                     then ''Consider decreasing the weight by 5 lbs.''
                   else if userGoal d = ''strength'' then ''Consider decreasing the reps by 2.''
                   else ''No changes suggested!'')
                else if previousDifficulty t = Easy \<and> cur = Easy then
                  (if userGoal d = ''strength'' then ''Consider increasing the weight.''
                   else ''Consider increasing the reps.'')
                else ''No changes suggested!'',
                t\<lparr>previousDifficulty := cur\<rparr>)
         \<and> (\<exists>d'. snd (promptChange c u n cur) u = Some d'
               \<and> find (\<lambda>task. name task = n) (weeklyTasks d') = Some (t\<lparr>previousDifficulty := cur\<rparr>)
               \<and> previousDifficulty (t\<lparr>previousDifficulty := cur\<rparr>) = cur)"
proof -
  from assms(2) have nm: "name t = n"
    using find_Some_split [of "\<lambda>task. name task = n" "weeklyTasks d" t] by blast
  have found: "find (\<lambda>task. name task = n)
                 (mutateFound (\<lambda>task. name task = n) (\<lambda>task. task\<lparr>previousDifficulty := cur\<rparr>)
                    (weeklyTasks d)) = Some (t\<lparr>previousDifficulty := cur\<rparr>)"
    using assms(2) nm by (intro find_mutateFound) simp_all
  have call: "promptChange c u n cur =
           (Inr (orDefault (suggestionFor (previousDifficulty t) cur (userGoal d)) ''No changes suggested!'',
                 t\<lparr>previousDifficulty := cur\<rparr>),
            c(u \<mapsto> d\<lparr>weeklyTasks := mutateFound (\<lambda>task. name task = n)
                        (\<lambda>task. task\<lparr>previousDifficulty := cur\<rparr>) (weeklyTasks d)\<rparr>))"
    using assms by (rule promptChange_found)
  show ?thesis
    unfolding call suggestion_text
    using found by simp
qed

theorem promptChange_suggestion_witness:
  "exampleStore 1 = Some exampleDoc
   \<and> find (\<lambda>task. name task = ''squat'') (weeklyTasks exampleDoc) = Some squat
   \<and> fst (promptChange exampleStore 1 ''squat'' Difficult) =
         Inr (''Consider decreasing the reps by 2.'', squat)
   \<and> fst (promptChange exampleStore 1 ''plank'' Easy) =
         Inr (''Consider increasing the weight.'', plank)
   \<and> fst (promptChange (exampleStore(1 \<mapsto> exampleDoc\<lparr>userGoal := []\<rparr>)) 1 ''plank'' Easy) =
         Inr (''Consider increasing the reps.'', plank)
   \<and> fst (promptChange exampleStore 1 ''plank'' Difficult) =
         Inr (''No changes suggested!'', plank\<lparr>previousDifficulty := Difficult\<rparr>)"
proof -
  have h1: "exampleStore 1 = Some exampleDoc"
    by (simp add: exampleStore_def)
  have h2: "find (\<lambda>task. name task = ''squat'') (weeklyTasks exampleDoc) = Some squat"
    by (simp add: exampleDoc_def squat_def)
  have h3: "find (\<lambda>task. name task = ''plank'') (weeklyTasks exampleDoc) = Some plank"
    by (simp add: exampleDoc_def squat_def plank_def)
  have g: "userGoal exampleDoc = ''strength''"
    by (simp add: exampleDoc_def)
  have a: "fst (promptChange exampleStore 1 ''squat'' Difficult) =
             Inr (''Consider decreasing the reps by 2.'', squat)"
    using promptChange_suggestion [of exampleStore 1 exampleDoc "''squat''" squat Difficult] h1 h2 g
    by (simp add: squat_def)
  have b: "fst (promptChange exampleStore 1 ''plank'' Easy) =
             Inr (''Consider increasing the weight.'', plank)"
    using promptChange_suggestion [of exampleStore 1 exampleDoc "''plank''" plank Easy] h1 h3 g
    by (simp add: plank_def)
  have h4: "(exampleStore(1 \<mapsto> exampleDoc\<lparr>userGoal := []\<rparr>)) 1 = Some (exampleDoc\<lparr>userGoal := []\<rparr>)"
    by simp
  have h5: "find (\<lambda>task. name task = ''plank'') (weeklyTasks (exampleDoc\<lparr>userGoal := []\<rparr>)) = Some plank"
    using h3 by simp
  have c: "fst (promptChange (exampleStore(1 \<mapsto> exampleDoc\<lparr>userGoal := []\<rparr>)) 1 ''plank'' Easy) =
             Inr (''Consider increasing the reps.'', plank)"
    using promptChange_suggestion [of "exampleStore(1 \<mapsto> exampleDoc\<lparr>userGoal := []\<rparr>)" 1
        "exampleDoc\<lparr>userGoal := []\<rparr>" "''plank''" plank Easy] h4 h5
    by (simp add: plank_def)
  have d: "fst (promptChange exampleStore 1 ''plank'' Difficult) =
             Inr (''No changes suggested!'', plank\<lparr>previousDifficulty := Difficult\<rparr>)"
    using promptChange_suggestion [of exampleStore 1 exampleDoc "''plank''" plank Difficult] h1 h3 g
    by (simp add: plank_def)
  from h1 h2 a b c d show ?thesis by simp
qed

section \<open>tasksCompleted\<close>

text \<open>
  C3, as stated: \<open>tasksCompleted\<close> would be true exactly when the weekly tasks are not empty
  and all completed. It is false for a tracking record with no tasks: the call returns true.
\<close>

theorem tasksCompleted_empty_counterexample:
  "\<not> ((tasksCompleted (Map.empty(2 \<mapsto> emptyDoc)) 2 = Inr True)
       = (weeklyTasks emptyDoc \<noteq> [] \<and> list_all completed (weeklyTasks emptyDoc)))"
  by (simp add: tasksCompleted_def getTrackingDoc_def readOne_def emptyDoc_def)

text \<open>
  C3, amended. For a user with a tracking record, \<open>tasksCompleted\<close> returns true if and only
  if every task of the weekly tasks is completed; for a record with no tasks it returns true.
\<close>

theorem tasksCompleted_every:
  assumes "c u = Some d"
  shows "tasksCompleted c u = Inr (\<forall>task \<in> set (weeklyTasks d). completed task)
         \<and> (weeklyTasks d = [] \<longrightarrow> tasksCompleted c u = Inr True)"
  using assms by (simp add: tasksCompleted_def getTrackingDoc_def readOne_def list_all_iff)

theorem tasksCompleted_every_witness:
  "exampleStore 1 = Some exampleDoc \<and> tasksCompleted exampleStore 1 = Inr False
   \<and> exampleStore 2 = Some emptyDoc \<and> tasksCompleted exampleStore 2 = Inr True"
proof -
  have h1: "exampleStore 1 = Some exampleDoc"
    by (simp add: exampleStore_def)
  have h2: "exampleStore 2 = Some emptyDoc"
    by (simp add: exampleStore_def)
  have a: "tasksCompleted exampleStore 1 = Inr False"
    using tasksCompleted_every [of exampleStore 1 exampleDoc] h1
    by (simp add: exampleDoc_def squat_def)
  have b: "tasksCompleted exampleStore 2 = Inr True"
    using tasksCompleted_every [of exampleStore 2 emptyDoc] h2 by (simp add: emptyDoc_def)
  from h1 h2 a b show ?thesis by simp
qed

section \<open>setCompleted\<close>

lemma setCompleted_found:
  assumes "c u = Some d" and "find (\<lambda>task. name task = n) (weeklyTasks d) = Some t"
  shows "setCompleted c u n =
           (Inr (completedMsg n (\<not> completed t)),
            c(u \<mapsto> d\<lparr>weeklyTasks := mutateFound (\<lambda>task. name task = n)
                        (\<lambda>task. task\<lparr>completed := \<not> completed task\<rparr>) (weeklyTasks d)\<rparr>))"
  using assms
  by (simp add: setCompleted_def getTrackingDoc_def readOne_def partialUpdateOne_def)

lemma isCompleted_found:
  assumes "c u = Some d" and "find (\<lambda>task. name task = n) (weeklyTasks d) = Some t"
  shows "isCompleted c u n = Inr (completed t)"
  using assms by (simp add: isCompleted_def getTrackingDoc_def readOne_def)

text \<open>
  C9. For a user with a tracking record and a task name present in the weekly tasks, one
  call of \<open>setCompleted\<close> succeeds and flips \<open>completed\<close> of the task found under that name,
  and a second call on the same name brings it back to its original value; the collection
  after the two calls is the collection before them.
\<close>

theorem setCompleted_twice:
  assumes "c u = Some d" and "find (\<lambda>task. name task = n) (weeklyTasks d) = Some t"
  shows "fst (setCompleted c u n) = Inr (completedMsg n (\<not> completed t))
         \<and> isCompleted (snd (setCompleted c u n)) u n = Inr (\<not> completed t)
         \<and> isCompleted (snd (setCompleted (snd (setCompleted c u n)) u n)) u n = Inr (completed t)
         \<and> snd (setCompleted (snd (setCompleted c u n)) u n) = c"
proof -
  let ?P = "\<lambda>task. name task = n"
  let ?f = "\<lambda>task. task\<lparr>completed := \<not> completed task\<rparr>"
  let ?d1 = "d\<lparr>weeklyTasks := mutateFound ?P ?f (weeklyTasks d)\<rparr>"
  let ?c1 = "c(u \<mapsto> ?d1)"
  from assms(2) have nm: "name t = n"
    using find_Some_split [of ?P "weeklyTasks d" t] by blast
  have first: "setCompleted c u n = (Inr (completedMsg n (\<not> completed t)), ?c1)"
    using assms by (rule setCompleted_found)
  have c1: "?c1 u = Some ?d1" by simp
  have f1: "find ?P (weeklyTasks ?d1) = Some (?f t)"
    using find_mutateFound [of ?P "weeklyTasks d" t ?f] assms(2) nm by simp
  have second: "setCompleted ?c1 u n =
      (Inr (completedMsg n (\<not> completed (?f t))),
       ?c1(u \<mapsto> ?d1\<lparr>weeklyTasks := mutateFound ?P ?f (weeklyTasks ?d1)\<rparr>))"
    using c1 f1 by (rule setCompleted_found)
  have restored: "mutateFound ?P ?f (mutateFound ?P ?f (weeklyTasks d)) = weeklyTasks d"
    by (rule mutateFound_twice) simp_all
  have same: "?c1(u \<mapsto> ?d1\<lparr>weeklyTasks := mutateFound ?P ?f (weeklyTasks ?d1)\<rparr>) = c"
    using assms(1) restored by (simp add: map_upd_triv)
  have r1: "isCompleted ?c1 u n = Inr (completed (?f t))"
    using c1 f1 by (rule isCompleted_found)
  have r2: "isCompleted c u n = Inr (completed t)"
    using assms by (rule isCompleted_found)
  show ?thesis
    unfolding first snd_conv fst_conv second same
    using r1 r2 by simp
qed

theorem setCompleted_twice_witness:
  "exampleStore 1 = Some exampleDoc
   \<and> find (\<lambda>task. name task = ''plank'') (weeklyTasks exampleDoc) = Some plank
   \<and> isCompleted (snd (setCompleted exampleStore 1 ''plank'')) 1 ''plank'' = Inr False
   \<and> isCompleted (snd (setCompleted (snd (setCompleted exampleStore 1 ''plank'')) 1 ''plank'')) 1 ''plank''
       = Inr True"
proof -
  have h1: "exampleStore 1 = Some exampleDoc"
    by (simp add: exampleStore_def)
  have h2: "find (\<lambda>task. name task = ''plank'') (weeklyTasks exampleDoc) = Some plank"
    by (simp add: exampleDoc_def squat_def plank_def)
  have p: "completed plank" by (simp add: plank_def)
  have q: "isCompleted exampleStore 1 ''plank'' = Inr True"
    using h1 h2 p by (simp add: isCompleted_found)
  from q setCompleted_twice [of exampleStore 1 exampleDoc "''plank''" plank] h1 h2 p
  show ?thesis by simp
qed

section \<open>Which operations fail\<close>

lemma createTrackingDoc_cases:
  "createTrackingDoc c u =
     (case c u of
        Some d \<Rightarrow> (Some d, c)
      | None \<Rightarrow> (Some \<lparr>user = u, userGoal = [], weeklyTasks = [], progressHistory = []\<rparr>,
                 c(u \<mapsto> \<lparr>user = u, userGoal = [], weeklyTasks = [], progressHistory = []\<rparr>)))"
  by (simp add: createTrackingDoc_def readOne_def createOne_def Let_def split: option.splits)

lemma createTask_succeeds: "\<exists>r. fst (createTask c u n desc r' s w) = Inr r"
  by (simp add: createTask_def createTrackingDoc_cases Let_def split: option.splits)

lemma resetWeeklyTasks_found:
  assumes "c u = Some d"
  shows "resetWeeklyTasks c u now =
           (Inr ''Weekly tasks reset and progress archived!'',
            c(u \<mapsto> d\<lparr>weeklyTasks := map (\<lambda>task. task\<lparr>completed := False\<rparr>) (weeklyTasks d),
                      progressHistory := progressHistory d
                        @ [\<lparr>weekStart = getStartOfWeek now,
                             completedTasks = filter completed (weeklyTasks d)\<rparr>]\<rparr>))"
  using assms
  by (simp add: resetWeeklyTasks_def getTrackingDoc_def readOne_def partialUpdateOne_def)

lemma resetWeeklyTasks_absent:
  assumes "c u = None"
  shows "resetWeeklyTasks c u now = (Inl NotFoundError, c)"
  using assms by (simp add: resetWeeklyTasks_def getTrackingDoc_def readOne_def)

lemma getCompletedPercentage_absent:
  assumes "c u = None"
  shows "getCompletedPercentage c u = Inl NotFoundError"
  using assms by (simp add: getCompletedPercentage_def getTrackingDoc_def readOne_def)

lemma getCompletedPercentage_present:
  assumes "c u = Some d"
  shows "\<exists>r. getCompletedPercentage c u = Inr r"
  using assms by (simp add: getCompletedPercentage_def getTrackingDoc_def readOne_def Let_def)

text \<open>
  C2, as stated: none of the four operations would raise an error, also for a user without a
  tracking record. It is false: for such a user \<open>resetWeeklyTasks\<close> and
  \<open>getCompletedPercentage\<close> raise NotFound, through \<open>getTrackingDoc\<close>.
\<close>

theorem resetWeeklyTasks_absent_counterexample:
  "fst (resetWeeklyTasks Map.empty 1 sunday) = Inl NotFoundError
   \<and> getCompletedPercentage Map.empty 1 = Inl NotFoundError"
  by (simp add: resetWeeklyTasks_absent getCompletedPercentage_absent)

text \<open>
  C2, amended. \<open>createTask\<close> and \<open>setUserGoal\<close> never raise an error, for a user with or
  without a tracking record. \<open>resetWeeklyTasks\<close> and \<open>getCompletedPercentage\<close> raise
  NotFound exactly when the user has no tracking record, leaving the collection as it was,
  and succeed exactly when the user has one.
\<close>

theorem operations_failing:
  "(\<exists>r. fst (createTask c u n desc r' s w) = Inr r)
   \<and> (\<exists>r. fst (setUserGoal c u g) = Inr r)
   \<and> ((resetWeeklyTasks c u now = (Inl NotFoundError, c)) = (c u = None))
   \<and> ((\<exists>r. fst (resetWeeklyTasks c u now) = Inr r) = (\<exists>d. c u = Some d))
   \<and> ((getCompletedPercentage c u = Inl NotFoundError) = (c u = None))
   \<and> ((\<exists>r. getCompletedPercentage c u = Inr r) = (\<exists>d. c u = Some d))"
proof (cases "c u")
  case None
  then show ?thesis
    using createTask_succeeds [of c u n desc r' s w]
    by (simp add: resetWeeklyTasks_absent getCompletedPercentage_absent setUserGoal_def)
next
  case (Some d)
  from Some obtain r where r: "getCompletedPercentage c u = Inr r"
    using getCompletedPercentage_present by blast
  from Some r show ?thesis
    using createTask_succeeds [of c u n desc r' s w]
    by (simp add: resetWeeklyTasks_found setUserGoal_def)
qed

theorem operations_failing_witness:
  "(\<exists>r. fst (createTask Map.empty 7 ''row'' ''barbell row'' (Fin 8 0) None None) = Inr r)
   \<and> (\<exists>r. fst (setUserGoal Map.empty 7 ''muscle'') = Inr r)
   \<and> resetWeeklyTasks Map.empty 7 sunday = (Inl NotFoundError, Map.empty)
   \<and> getCompletedPercentage Map.empty 7 = Inl NotFoundError
   \<and> (\<exists>r. fst (resetWeeklyTasks exampleStore 1 sunday) = Inr r)
   \<and> (\<exists>r. getCompletedPercentage exampleStore 1 = Inr r)"
proof -
  have h: "\<exists>d. exampleStore 1 = Some d"
    by (simp add: exampleStore_def)
  have e: "(Map.empty :: TrackingStore) 7 = None" by simp
  from operations_failing [of Map.empty 7 "''row''" "''barbell row''" "Fin 8 0" None None "''muscle''" sunday] e
  have a: "(\<exists>r. fst (createTask Map.empty 7 ''row'' ''barbell row'' (Fin 8 0) None None) = Inr r)
           \<and> (\<exists>r. fst (setUserGoal Map.empty 7 ''muscle'') = Inr r)
           \<and> resetWeeklyTasks Map.empty 7 sunday = (Inl NotFoundError, Map.empty)
           \<and> getCompletedPercentage Map.empty 7 = Inl NotFoundError"
    by blast
  from operations_failing [of exampleStore 1 "''row''" "''barbell row''" "Fin 8 0" None None "''muscle''" sunday] h
  have b: "(\<exists>r. fst (resetWeeklyTasks exampleStore 1 sunday) = Inr r)
           \<and> (\<exists>r. getCompletedPercentage exampleStore 1 = Inr r)"
    by blast
  from a b show ?thesis by blast
qed

section \<open>resetWeeklyTasks\<close>

text \<open>
  C4. For a user with a tracking record, \<open>resetWeeklyTasks\<close> succeeds; afterwards the
  progress history is the history before with exactly one entry appended, whose completed
  tasks are exactly the tasks that were completed, in their order; the weekly tasks are as
  many as before, each with \<open>completed\<close> false and with its name, description, reps, sets,
  weight and previousDifficulty as before; the goal of the user is as before, and the
  records of the other users are as before.
\<close>

theorem resetWeeklyTasks_effect:
  assumes "c u = Some d"
  shows "fst (resetWeeklyTasks c u now) = Inr ''Weekly tasks reset and progress archived!''
         \<and> (\<exists>d'. snd (resetWeeklyTasks c u now) u = Some d'
               \<and> progressHistory d' = progressHistory d
                    @ [\<lparr>weekStart = getStartOfWeek now,
                         completedTasks = filter completed (weeklyTasks d)\<rparr>]
               \<and> length (progressHistory d') = length (progressHistory d) + 1
               \<and> length (weeklyTasks d') = length (weeklyTasks d)
               \<and> (\<forall>i < length (weeklyTasks d).
                     \<not> completed (weeklyTasks d' ! i)
                     \<and> name (weeklyTasks d' ! i) = name (weeklyTasks d ! i)
                     \<and> description (weeklyTasks d' ! i) = description (weeklyTasks d ! i)
                     \<and> reps (weeklyTasks d' ! i) = reps (weeklyTasks d ! i)
                     \<and> sets (weeklyTasks d' ! i) = sets (weeklyTasks d ! i)
                     \<and> weight (weeklyTasks d' ! i) = weight (weeklyTasks d ! i)
                     \<and> previousDifficulty (weeklyTasks d' ! i) = previousDifficulty (weeklyTasks d ! i))
               \<and> userGoal d' = userGoal d
               \<and> user d' = user d)
         \<and> (\<forall>v. v \<noteq> u \<longrightarrow> snd (resetWeeklyTasks c u now) v = c v)"
  unfolding resetWeeklyTasks_found [of c u d now, OF assms]
  by simp

theorem resetWeeklyTasks_effect_witness:
  "exampleStore 1 = Some exampleDoc
   \<and> (\<exists>d'. snd (resetWeeklyTasks exampleStore 1 sunday) 1 = Some d'
         \<and> progressHistory d' = [\<lparr>weekStart = sunday, completedTasks = [plank]\<rparr>]
         \<and> length (weeklyTasks d') = 2
         \<and> \<not> completed (weeklyTasks d' ! 1)
         \<and> previousDifficulty (weeklyTasks d' ! 1) = Easy
         \<and> userGoal d' = ''strength'')"
proof -
  have h: "exampleStore 1 = Some exampleDoc"
    by (simp add: exampleStore_def)
  have s: "getStartOfWeek sunday = sunday"
    by (simp add: getStartOfWeek_def getDay_def sunday_def)
  have ws: "weeklyTasks exampleDoc = [squat, plank]" "progressHistory exampleDoc = []"
    "userGoal exampleDoc = ''strength''"
    by (simp_all add: exampleDoc_def)
  have sq: "\<not> completed squat" "completed plank" "previousDifficulty plank = Easy"
    by (simp_all add: squat_def plank_def)
  from resetWeeklyTasks_effect [of exampleStore 1 exampleDoc sunday] h
  obtain d' where d':
    "snd (resetWeeklyTasks exampleStore 1 sunday) 1 = Some d'"
    "progressHistory d' = progressHistory exampleDoc
       @ [\<lparr>weekStart = getStartOfWeek sunday, completedTasks = filter completed (weeklyTasks exampleDoc)\<rparr>]"
    "length (weeklyTasks d') = length (weeklyTasks exampleDoc)"
    "\<forall>i < length (weeklyTasks exampleDoc).
        \<not> completed (weeklyTasks d' ! i)
        \<and> name (weeklyTasks d' ! i) = name (weeklyTasks exampleDoc ! i)
        \<and> description (weeklyTasks d' ! i) = description (weeklyTasks exampleDoc ! i)
        \<and> reps (weeklyTasks d' ! i) = reps (weeklyTasks exampleDoc ! i)
        \<and> sets (weeklyTasks d' ! i) = sets (weeklyTasks exampleDoc ! i)
        \<and> weight (weeklyTasks d' ! i) = weight (weeklyTasks exampleDoc ! i)
        \<and> previousDifficulty (weeklyTasks d' ! i) = previousDifficulty (weeklyTasks exampleDoc ! i)"
    "userGoal d' = userGoal exampleDoc"
    by blast
  from d'(4) have one: "\<not> completed (weeklyTasks d' ! 1)
      \<and> previousDifficulty (weeklyTasks d' ! 1) = previousDifficulty (weeklyTasks exampleDoc ! 1)"
    by (simp add: ws)
  from h d'(1,2,3,5) one show ?thesis
    by (simp add: ws sq s)
qed

section \<open>updateTask\<close>

lemma assignFields_provided:
  "reps (assignFields r s w t) = (case r of None \<Rightarrow> reps t | Some v \<Rightarrow> v)"
  "sets (assignFields r s w t) = (case s of None \<Rightarrow> sets t | Some v \<Rightarrow> Some v)"
  "weight (assignFields r s w t) = (case w of None \<Rightarrow> weight t | Some v \<Rightarrow> Some v)"
  by (simp_all add: assignFields_def split: option.splits)

lemma assignFields_kept:
  "name (assignFields r s w t) = name t"
  "description (assignFields r s w t) = description t"
  "completed (assignFields r s w t) = completed t"
  "previousDifficulty (assignFields r s w t) = previousDifficulty t"
  by (simp_all add: assignFields_def split: option.splits)

lemma updateTask_found:
  assumes "c u = Some d" and "find (\<lambda>task. name task = n) (weeklyTasks d) = Some t"
  shows "updateTask c u n r s w =
           (Inr (''Task successfully updated!'', assignFields r s w t),
            c(u \<mapsto> d\<lparr>weeklyTasks := mutateFound (\<lambda>task. name task = n)
                        (assignFields r s w) (weeklyTasks d)\<rparr>))"
  using assms
  by (simp add: updateTask_def getTrackingDoc_def readOne_def partialUpdateOne_def)

lemma updateTask_no_record:
  assumes "c u = None"
  shows "updateTask c u n r s w = (Inl NotFoundError, c)"
  using assms by (simp add: updateTask_def getTrackingDoc_def readOne_def)

lemma updateTask_no_task:
  assumes "c u = Some d" and "n \<notin> name ` set (weeklyTasks d)"
  shows "updateTask c u n r s w = (Inl NotFoundError, c)"
proof -
  from assms(2) have "find (\<lambda>task. name task = n) (weeklyTasks d) = None"
    by (simp add: find_None_names)
  with assms(1) show ?thesis
    by (simp add: updateTask_def getTrackingDoc_def readOne_def)
qed

lemma updateTask_first:
  assumes "c u = Some d" and "weeklyTasks d = pre @ t # post"
    and "name t = n" and "n \<notin> name ` set pre"
  shows "updateTask c u n r s w =
           (Inr (''Task successfully updated!'', assignFields r s w t),
            c(u \<mapsto> d\<lparr>weeklyTasks := pre @ assignFields r s w t # post\<rparr>))"
proof -
  from assms(4) have pre: "\<forall>x \<in> set pre. \<not> name x = n" by auto
  have f: "find (\<lambda>task. name task = n) (weeklyTasks d) = Some t"
    unfolding assms(2) using pre assms(3) by (rule find_first)
  have m: "mutateFound (\<lambda>task. name task = n) (assignFields r s w) (weeklyTasks d)
             = pre @ assignFields r s w t # post"
    unfolding assms(2) using pre assms(3) by (rule mutateFound_first)
  show ?thesis
    using updateTask_found [of c u d n t r s w] assms(1) f m by simp
qed

text \<open>
  C6. \<open>updateTask\<close> fails exactly when the user has no tracking record or no task of the
  record has the name; the error is then NotFound and the collection is as before.
  Otherwise it changes the first task of that name only: \<open>reps\<close>, \<open>sets\<close> and \<open>weight\<close> take
  the values of the arguments that are provided and keep their values where the argument is
  absent; name, description, completed and previousDifficulty keep their values; the
  tasks before and after it, the other fields of the record and the records of the other
  users are as before.
\<close>

theorem updateTask_partial:
  "((\<exists>e. fst (updateTask c u n r s w) = Inl e)
      = (c u = None \<or> (\<exists>d. c u = Some d \<and> n \<notin> name ` set (weeklyTasks d))))
   \<and> (\<forall>e. fst (updateTask c u n r s w) = Inl e
          \<longrightarrow> e = NotFoundError \<and> snd (updateTask c u n r s w) = c)
   \<and> (\<forall>d pre t post.
         c u = Some d \<and> weeklyTasks d = pre @ t # post \<and> name t = n \<and> n \<notin> name ` set pre
         \<longrightarrow> (\<exists>t'. updateTask c u n r s w =
                      (Inr (''Task successfully updated!'', t'),
                       c(u \<mapsto> d\<lparr>weeklyTasks := pre @ t' # post\<rparr>))
                  \<and> reps t' = (case r of None \<Rightarrow> reps t | Some v \<Rightarrow> v)
                  \<and> sets t' = (case s of None \<Rightarrow> sets t | Some v \<Rightarrow> Some v)
                  \<and> weight t' = (case w of None \<Rightarrow> weight t | Some v \<Rightarrow> Some v)
                  \<and> name t' = name t
                  \<and> description t' = description t
                  \<and> completed t' = completed t
                  \<and> previousDifficulty t' = previousDifficulty t))"
proof -
  have fails: "((\<exists>e. fst (updateTask c u n r s w) = Inl e)
                 = (c u = None \<or> (\<exists>d. c u = Some d \<and> n \<notin> name ` set (weeklyTasks d))))
               \<and> (\<forall>e. fst (updateTask c u n r s w) = Inl e
                      \<longrightarrow> e = NotFoundError \<and> snd (updateTask c u n r s w) = c)"
  proof (cases "c u")
    case None
    then show ?thesis by (simp add: updateTask_no_record)
  next
    case (Some d)
    show ?thesis
    proof (cases "find (\<lambda>task. name task = n) (weeklyTasks d)")
      case None
      then have "n \<notin> name ` set (weeklyTasks d)" by (simp add: find_None_names)
      with Some show ?thesis by (simp add: updateTask_no_task)
    next
      case (Some t)
      then have "n \<in> name ` set (weeklyTasks d)"
        using find_None_names [of n "weeklyTasks d"] by auto
      with \<open>c u = Some d\<close> Some show ?thesis by (simp add: updateTask_found)
    qed
  qed
  have changes: "\<exists>t'. updateTask c u n r s w =
                      (Inr (''Task successfully updated!'', t'),
                       c(u \<mapsto> d\<lparr>weeklyTasks := pre @ t' # post\<rparr>))
                  \<and> reps t' = (case r of None \<Rightarrow> reps t | Some v \<Rightarrow> v)
                  \<and> sets t' = (case s of None \<Rightarrow> sets t | Some v \<Rightarrow> Some v)
                  \<and> weight t' = (case w of None \<Rightarrow> weight t | Some v \<Rightarrow> Some v)
                  \<and> name t' = name t
                  \<and> description t' = description t
                  \<and> completed t' = completed t
                  \<and> previousDifficulty t' = previousDifficulty t"
    if "c u = Some d" "weeklyTasks d = pre @ t # post" "name t = n" "n \<notin> name ` set pre"
    for d pre t post
    using updateTask_first [of c u d pre t post n r s w] that assignFields_provided [of r s w t]
      assignFields_kept [of r s w t]
    by blast
  from fails changes show ?thesis by blast
qed

theorem updateTask_partial_witness:
  "exampleStore 1 = Some exampleDoc \<and> weeklyTasks exampleDoc = [squat] @ plank # []
   \<and> name plank = ''plank'' \<and> ''plank'' \<notin> name ` set [squat]
   \<and> (\<exists>t'. updateTask exampleStore 1 ''plank'' None (Some (Fin 4 0)) None =
               (Inr (''Task successfully updated!'', t'),
                exampleStore(1 \<mapsto> exampleDoc\<lparr>weeklyTasks := [squat] @ t' # []\<rparr>))
          \<and> reps t' = Fin 1 0 \<and> sets t' = Some (Fin 4 0) \<and> weight t' = None
          \<and> completed t' \<and> previousDifficulty t' = Easy)
   \<and> fst (updateTask exampleStore 1 ''lunge'' None (Some (Fin 4 0)) None) = Inl NotFoundError
   \<and> fst (updateTask exampleStore 9 ''plank'' None (Some (Fin 4 0)) None) = Inl NotFoundError"
proof -
  have h1: "exampleStore 1 = Some exampleDoc"
    by (simp add: exampleStore_def)
  have h2: "weeklyTasks exampleDoc = [squat] @ plank # []"
    by (simp add: exampleDoc_def)
  have h3: "name plank = ''plank''" "reps plank = Fin 1 0" "weight plank = None"
    "completed plank" "previousDifficulty plank = Easy"
    by (simp_all add: plank_def)
  have h4: "''plank'' \<notin> name ` set [squat]"
    by (simp add: squat_def)
  have h5: "''lunge'' \<notin> name ` set (weeklyTasks exampleDoc)"
    by (simp add: exampleDoc_def squat_def plank_def)
  have h6: "exampleStore 9 = None"
    by (simp add: exampleStore_def)
  note w1 = updateTask_partial [of exampleStore 1 "''plank''" None "Some (Fin 4 0)" None]
  note w2 = updateTask_partial [of exampleStore 1 "''lunge''" None "Some (Fin 4 0)" None]
  note w3 = updateTask_partial [of exampleStore 9 "''plank''" None "Some (Fin 4 0)" None]
  from w1 h1 h2 h3(1) h4
  have a: "\<exists>t'. updateTask exampleStore 1 ''plank'' None (Some (Fin 4 0)) None =
               (Inr (''Task successfully updated!'', t'),
                exampleStore(1 \<mapsto> exampleDoc\<lparr>weeklyTasks := [squat] @ t' # []\<rparr>))
          \<and> reps t' = (case None of None \<Rightarrow> reps plank | Some v \<Rightarrow> v)
          \<and> sets t' = (case Some (Fin 4 0) of None \<Rightarrow> sets plank | Some v \<Rightarrow> Some v)
          \<and> weight t' = (case None of None \<Rightarrow> weight plank | Some v \<Rightarrow> Some v)
          \<and> name t' = name plank
          \<and> description t' = description plank
          \<and> completed t' = completed plank
          \<and> previousDifficulty t' = previousDifficulty plank"
    by blast
  from w2 h1 h5 have b: "fst (updateTask exampleStore 1 ''lunge'' None (Some (Fin 4 0)) None) = Inl NotFoundError"
    by blast
  from w3 h6 have c: "fst (updateTask exampleStore 9 ''plank'' None (Some (Fin 4 0)) None) = Inl NotFoundError"
    by blast
  from a h3 have a': "\<exists>t'. updateTask exampleStore 1 ''plank'' None (Some (Fin 4 0)) None =
               (Inr (''Task successfully updated!'', t'),
                exampleStore(1 \<mapsto> exampleDoc\<lparr>weeklyTasks := [squat] @ t' # []\<rparr>))
          \<and> reps t' = Fin 1 0 \<and> sets t' = Some (Fin 4 0) \<and> weight t' = None
          \<and> completed t' \<and> previousDifficulty t' = Easy"
    by (simp, blast)
  from h1 h2 h3(1) h4 a' b c show ?thesis by blast
qed

section \<open>Several tasks of one name\<close>

lemma deleteTask_found:
  assumes "c u = Some d"
  shows "deleteTask c u n =
           (Inr ''Task successfully deleted!'',
            c(u \<mapsto> d\<lparr>weeklyTasks := filter (\<lambda>task. name task \<noteq> n) (weeklyTasks d)\<rparr>))"
  using assms
  by (simp add: deleteTask_def getTrackingDoc_def readOne_def partialUpdateOne_def)

lemma createTask_found:
  assumes "c u = Some d"
  shows "createTask c u n desc r s w =
           (Inr (Some (''Task successfully created!'',
                       \<lparr>name = n, description = desc, reps = r, sets = s, weight = w,
                         completed = False, previousDifficulty = JustRight\<rparr>)),
            c(u \<mapsto> d\<lparr>weeklyTasks := weeklyTasks d
                        @ [\<lparr>name = n, description = desc, reps = r, sets = s, weight = w,
                             completed = False, previousDifficulty = JustRight\<rparr>]\<rparr>))"
  using assms
  by (simp add: createTask_def createTrackingDoc_cases partialUpdateOne_def Let_def)

lemma filter_first:
  assumes "\<forall>x \<in> set pre. \<not> P x" and "P t"
  shows "filter (\<lambda>x. \<not> P x) (pre @ t # post) = pre @ filter (\<lambda>x. \<not> P x) post"
  using assms by (induction pre) auto

text \<open>
  C10. \<open>createTask\<close> appends the new task also when the record already has a task of that
  name. When the weekly tasks are \<open>pre @ t # post\<close>, where \<open>t\<close> is the first task named \<open>n\<close>
  and \<open>post\<close> may hold further tasks named \<open>n\<close>: \<open>updateTask\<close>, \<open>setCompleted\<close> and
  \<open>promptChange\<close> change \<open>t\<close> and leave \<open>pre\<close> and \<open>post\<close> as they are, \<open>isCompleted\<close> reads
  \<open>t\<close>, and \<open>deleteTask\<close> removes \<open>t\<close> and every task named \<open>n\<close> of \<open>post\<close>, so that no task
  named \<open>n\<close> is left.
\<close>

theorem duplicate_names:
  assumes "c u = Some d" and "weeklyTasks d = pre @ t # post"
    and "name t = n" and "n \<notin> name ` set pre"
  shows "snd (createTask c u n desc r0 s0 w0) u =
           Some (d\<lparr>weeklyTasks := pre @ t # post
                   @ [\<lparr>name = n, description = desc, reps = r0, sets = s0, weight = w0,
                        completed = False, previousDifficulty = JustRight\<rparr>]\<rparr>)
         \<and> snd (updateTask c u n r s w) u =
             Some (d\<lparr>weeklyTasks := pre @ assignFields r s w t # post\<rparr>)
         \<and> snd (setCompleted c u n) u =
             Some (d\<lparr>weeklyTasks := pre @ t\<lparr>completed := \<not> completed t\<rparr> # post\<rparr>)
         \<and> isCompleted c u n = Inr (completed t)
         \<and> snd (promptChange c u n cur) u =
             Some (d\<lparr>weeklyTasks := pre @ t\<lparr>previousDifficulty := cur\<rparr> # post\<rparr>)
         \<and> snd (deleteTask c u n) u =
             Some (d\<lparr>weeklyTasks := pre @ filter (\<lambda>task. name task \<noteq> n) post\<rparr>)
         \<and> n \<notin> name ` set (pre @ filter (\<lambda>task. name task \<noteq> n) post)"
proof -
  let ?P = "\<lambda>task. name task = n"
  from assms(4) have pre: "\<forall>x \<in> set pre. \<not> ?P x" by auto
  have f: "find ?P (weeklyTasks d) = Some t"
    unfolding assms(2) using pre assms(3) by (rule find_first)
  have m: "mutateFound ?P g (weeklyTasks d) = pre @ g t # post" for g
    unfolding assms(2) using pre assms(3) by (rule mutateFound_first)
  have create: "snd (createTask c u n desc r0 s0 w0) u =
           Some (d\<lparr>weeklyTasks := pre @ t # post
                   @ [\<lparr>name = n, description = desc, reps = r0, sets = s0, weight = w0,
                        completed = False, previousDifficulty = JustRight\<rparr>]\<rparr>)"
    using createTask_found [of c u d n desc r0 s0 w0] assms(1,2) by simp
  have update: "snd (updateTask c u n r s w) u =
             Some (d\<lparr>weeklyTasks := pre @ assignFields r s w t # post\<rparr>)"
    using updateTask_found [of c u d n t r s w] assms(1) f m by simp
  have toggle: "snd (setCompleted c u n) u =
             Some (d\<lparr>weeklyTasks := pre @ t\<lparr>completed := \<not> completed t\<rparr> # post\<rparr>)"
    using setCompleted_found [of c u d n t] assms(1) f
      m [of "\<lambda>task. task\<lparr>completed := \<not> completed task\<rparr>"] by simp
  have read: "isCompleted c u n = Inr (completed t)"
    using assms(1) f by (rule isCompleted_found)
  have prompt: "snd (promptChange c u n cur) u =
             Some (d\<lparr>weeklyTasks := pre @ t\<lparr>previousDifficulty := cur\<rparr> # post\<rparr>)"
    using promptChange_found [of c u d n t cur] assms(1) f
      m [of "\<lambda>task. task\<lparr>previousDifficulty := cur\<rparr>"] by simp
  have "filter (\<lambda>task. \<not> ?P task) (pre @ t # post) = pre @ filter (\<lambda>task. \<not> ?P task) post"
    using pre assms(3) by (rule filter_first)
  then have delete: "snd (deleteTask c u n) u =
             Some (d\<lparr>weeklyTasks := pre @ filter (\<lambda>task. name task \<noteq> n) post\<rparr>)"
    using deleteTask_found [of c u d n] assms(1,2) by simp
  have gone: "n \<notin> name ` set (pre @ filter (\<lambda>task. name task \<noteq> n) post)"
    using assms(4) by auto
  from create update toggle read prompt delete gone show ?thesis by blast
qed

theorem duplicate_names_witness:
  "(exampleStore(1 \<mapsto> exampleDoc\<lparr>weeklyTasks := [plank] @ squat # [plank, squat\<lparr>completed := True\<rparr>]\<rparr>)) 1
      = Some (exampleDoc\<lparr>weeklyTasks := [plank] @ squat # [plank, squat\<lparr>completed := True\<rparr>]\<rparr>)
   \<and> name squat = ''squat'' \<and> ''squat'' \<notin> name ` set [plank]
   \<and> snd (setCompleted
            (exampleStore(1 \<mapsto> exampleDoc\<lparr>weeklyTasks := [plank] @ squat # [plank, squat\<lparr>completed := True\<rparr>]\<rparr>))
            1 ''squat'') 1
       = Some (exampleDoc\<lparr>weeklyTasks := [plank, squat\<lparr>completed := True\<rparr>, plank, squat\<lparr>completed := True\<rparr>]\<rparr>)
   \<and> isCompleted
        (exampleStore(1 \<mapsto> exampleDoc\<lparr>weeklyTasks := [plank] @ squat # [plank, squat\<lparr>completed := True\<rparr>]\<rparr>))
        1 ''squat'' = Inr False
   \<and> snd (deleteTask
            (exampleStore(1 \<mapsto> exampleDoc\<lparr>weeklyTasks := [plank] @ squat # [plank, squat\<lparr>completed := True\<rparr>]\<rparr>))
            1 ''squat'') 1
       = Some (exampleDoc\<lparr>weeklyTasks := [plank, plank]\<rparr>)"
proof -
  let ?d = "exampleDoc\<lparr>weeklyTasks := [plank] @ squat # [plank, squat\<lparr>completed := True\<rparr>]\<rparr>"
  let ?c = "exampleStore(1 \<mapsto> ?d)"
  have h1: "?c 1 = Some ?d" by simp
  have h2: "weeklyTasks ?d = [plank] @ squat # [plank, squat\<lparr>completed := True\<rparr>]" by simp
  have h3: "name squat = ''squat''" by (simp add: squat_def)
  have h4: "''squat'' \<notin> name ` set [plank]" by (simp add: plank_def)
  have sq: "\<not> completed squat" by (simp add: squat_def)
  have fl: "filter (\<lambda>task. name task \<noteq> ''squat'') [plank, squat\<lparr>completed := True\<rparr>] = [plank]"
    by (simp add: plank_def squat_def)
  note w = duplicate_names [of ?c 1 ?d "[plank]" squat "[plank, squat\<lparr>completed := True\<rparr>]" "''squat''",
      OF h1 h2 h3 h4]
  from w have a: "snd (setCompleted ?c 1 ''squat'') 1
       = Some (?d\<lparr>weeklyTasks := [plank] @ squat\<lparr>completed := \<not> completed squat\<rparr>
                   # [plank, squat\<lparr>completed := True\<rparr>]\<rparr>)"
    by blast
  from w have b: "isCompleted ?c 1 ''squat'' = Inr (completed squat)"
    by blast
  from w have c: "snd (deleteTask ?c 1 ''squat'') 1
       = Some (?d\<lparr>weeklyTasks := [plank]
                   @ filter (\<lambda>task. name task \<noteq> ''squat'') [plank, squat\<lparr>completed := True\<rparr>]\<rparr>)"
    by blast
  from h1 h3 h4 a b c sq fl show ?thesis by simp
qed

section \<open>The progress history only grows\<close>

lemma historyOf_upd:
  "historyOf (c(u \<mapsto> d)) v = (if v = u then progressHistory d else historyOf c v)"
  by (simp add: historyOf_def)

lemma historyOf_partialUpdateOne:
  assumes "\<And>d. prefix (progressHistory d) (progressHistory (f d))"
  shows "prefix (historyOf c v) (historyOf (partialUpdateOne c u f) v)"
  using assms by (simp add: historyOf_def partialUpdateOne_def split: option.splits)

lemma history_createTrackingDoc:
  "prefix (historyOf c v) (historyOf (snd (createTrackingDoc c u)) v)"
  by (simp add: createTrackingDoc_cases historyOf_def split: option.splits)

lemma history_createTask:
  "prefix (historyOf c v) (historyOf (snd (createTask c u n desc r s w)) v)"
  by (simp add: createTask_def createTrackingDoc_cases historyOf_def partialUpdateOne_def Let_def
      split: option.splits)

lemma history_updateTask:
  "prefix (historyOf c v) (historyOf (snd (updateTask c u n r s w)) v)"
  by (simp add: updateTask_def getTrackingDoc_def readOne_def historyOf_partialUpdateOne
      split: option.splits)

lemma history_deleteTask:
  "prefix (historyOf c v) (historyOf (snd (deleteTask c u n)) v)"
  by (simp add: deleteTask_def getTrackingDoc_def readOne_def historyOf_partialUpdateOne
      split: option.splits)

lemma history_setUserGoal:
  "prefix (historyOf c v) (historyOf (snd (setUserGoal c u g)) v)"
  by (simp add: setUserGoal_def historyOf_partialUpdateOne)

lemma history_setCompleted:
  "prefix (historyOf c v) (historyOf (snd (setCompleted c u n)) v)"
  by (simp add: setCompleted_def getTrackingDoc_def readOne_def historyOf_partialUpdateOne
      split: option.splits)

lemma history_promptChange:
  "prefix (historyOf c v) (historyOf (snd (promptChange c u n cur)) v)"
  by (simp add: promptChange_def getTrackingDoc_def readOne_def historyOf_partialUpdateOne
      split: option.splits)

lemma history_resetWeeklyTasks:
  "prefix (historyOf c v) (historyOf (snd (resetWeeklyTasks c u now)) v)"
  by (simp add: resetWeeklyTasks_def getTrackingDoc_def readOne_def historyOf_def
      partialUpdateOne_def split: option.splits)

text \<open>
  C7. After any one call of a \<open>TrackingConcept\<close> method, made for any user, with any
  arguments, whether it succeeds or fails, the progress history of every user begins with
  the history that user had before the call: entries are only appended, and an archived
  entry is never changed or removed. The same holds after any sequence of calls.
\<close>

theorem progressHistory_append_only:
  "prefix (historyOf c v) (historyOf (run op u c) v)
   \<and> prefix (historyOf c v) (historyOf (fold (\<lambda>(op, u). run op u) calls c) v)"
proof -
  have step: "prefix (historyOf c v) (historyOf (run op u c) v)" for c op u
    by (cases op)
      (simp_all add: history_createTask history_updateTask history_deleteTask
        history_setUserGoal history_setCompleted history_promptChange
        history_resetWeeklyTasks history_createTrackingDoc)
  have many: "prefix (historyOf c v) (historyOf (fold (\<lambda>(op, u). run op u) calls c) v)"
  proof (induction calls arbitrary: c)
    case Nil
    show ?case by simp
  next
    case (Cons call calls)
    obtain op u where call: "call = (op, u)" by (cases call)
    have "prefix (historyOf c v) (historyOf (run op u c) v)" by (rule step)
    also have "prefix (historyOf (run op u c) v)
                 (historyOf (fold (\<lambda>(op, u). run op u) calls (run op u c)) v)"
      by (rule Cons.IH)
    finally show ?case by (simp add: call)
  qed
  from step many show ?thesis by blast
qed

theorem progressHistory_append_only_witness:
  "prefix (historyOf exampleStore 1) (historyOf (run (ResetWeeklyTasks sunday) 1 exampleStore) 1)
   \<and> historyOf exampleStore 1 = []
   \<and> historyOf (run (ResetWeeklyTasks sunday) 1 exampleStore) 1
       = [\<lparr>weekStart = sunday, completedTasks = [plank]\<rparr>]
   \<and> prefix (historyOf (run (ResetWeeklyTasks sunday) 1 exampleStore) 1)
        (historyOf (fold (\<lambda>(op, u). run op u)
                      [(DeleteTask ''plank'', 1), (ResetWeeklyTasks sunday, 1), (SetUserGoal ''muscle'', 2)]
                      (run (ResetWeeklyTasks sunday) 1 exampleStore)) 1)"
proof -
  have h: "exampleStore 1 = Some exampleDoc"
    by (simp add: exampleStore_def)
  have s: "getStartOfWeek sunday = sunday"
    by (simp add: getStartOfWeek_def getDay_def sunday_def)
  have before: "historyOf exampleStore 1 = []"
    using h by (simp add: historyOf_def exampleDoc_def)
  have after: "historyOf (run (ResetWeeklyTasks sunday) 1 exampleStore) 1
       = [\<lparr>weekStart = sunday, completedTasks = [plank]\<rparr>]"
    using h s by (simp add: resetWeeklyTasks_found historyOf_def exampleDoc_def squat_def plank_def)
  note w1 = progressHistory_append_only [of exampleStore 1 "ResetWeeklyTasks sunday" 1 "[]"]
  note w2 = progressHistory_append_only [of "run (ResetWeeklyTasks sunday) 1 exampleStore" 1
      "ResetWeeklyTasks sunday" 1
      "[(DeleteTask ''plank'', 1), (ResetWeeklyTasks sunday, 1), (SetUserGoal ''muscle'', 2)]"]
  from w1 w2 before after show ?thesis by blast
qed

section \<open>awardPoints\<close>

lemma js_sign: "js_ge (Fin m e) (Fin 0 0) \<or> js_lt (Fin m e) (Fin 0 0)"
  by (simp add: linorder_not_less [symmetric])

lemma js_sign_NaN: "(\<not> js_ge a (Fin 0 0) \<and> \<not> js_lt a (Fin 0 0)) = (a = NaN)"
proof (cases a)
  case NaN
  then show ?thesis by simp
next
  case (Fin m e)
  then show ?thesis using js_sign [of m e] by auto
qed

lemma js_sign_exclusive: "\<not> (js_ge a (Fin 0 0) \<and> js_lt a (Fin 0 0))"
  by (cases a) auto

lemma checkVerifiedPost_fails:
  "(\<exists>e. checkVerifiedPost amount vp posts = Inl e) =
     ((\<exists>post. vp = Some post \<and> js_ge amount (Fin 0 0) \<and> post \<in> set posts)
      \<or> (\<exists>post. vp = Some post \<and> js_lt amount (Fin 0 0) \<and> post \<notin> set posts)
      \<or> (vp \<noteq> None \<and> amount = NaN))"
proof (cases vp)
  case None
  then show ?thesis by (simp add: checkVerifiedPost_def)
next
  case (Some post)
  show ?thesis
    using js_sign_NaN [of amount] js_sign_exclusive [of amount]
    by (auto simp add: checkVerifiedPost_def Some)
qed

lemma awardPoints_error_iff:
  assumes "c u = Some p"
  shows "(\<exists>e. fst (awardPoints c u amount vp) = Inl e) =
           ((\<exists>e. checkVerifiedPost amount vp (verifiedPosts p) = Inl e)
            \<or> js_lt (js_add (points p) amount) (Fin 0 0))"
  using assms
  by (cases "checkVerifiedPost amount vp (verifiedPosts p)")
    (simp_all add: awardPoints_def readOne_def Let_def)

lemma awardPoints_error_unchanged:
  assumes "fst (awardPoints c u amount vp) = Inl e"
  shows "snd (awardPoints c u amount vp) = c"
  using assms
  by (auto simp add: awardPoints_def readOne_def Let_def split: option.splits sum.splits if_splits)

text \<open>
  C8, as stated: with a points document, \<open>awardPoints\<close> would raise an error exactly in the
  cases (a), (b) and (c). It is false for the amount \<open>NaN\<close> with a verified post: neither
  \<open>amount >= 0\<close> nor \<open>amount < 0\<close> holds, nor \<open>points + amount < 0\<close>, and the call raises
  InvalidPointAwardError.
\<close>

theorem awardPoints_NaN_counterexample:
  "\<not> ((\<exists>e. fst (awardPoints examplePointStore 1 NaN (Some 5)) = Inl e)
       = ((js_ge NaN (Fin 0 0) \<and> 5 \<in> set (verifiedPosts examplePoints))
          \<or> (js_lt NaN (Fin 0 0) \<and> 5 \<notin> set (verifiedPosts examplePoints))
          \<or> js_lt (js_add (points examplePoints) NaN) (Fin 0 0)))"
  by (simp add: awardPoints_def checkVerifiedPost_def readOne_def examplePointStore_def
      examplePoints_def)

text \<open>
  C8, amended. For a user with a points document, \<open>awardPoints\<close> raises an error exactly
  when (a) a verified post is supplied with \<open>amount >= 0\<close> and the post is already among the
  verified posts, (b) a verified post is supplied with \<open>amount < 0\<close> and the post is not
  among them, (c) \<open>points + amount < 0\<close>, or (d) a verified post is supplied and the amount
  is \<open>NaN\<close>. In every error case the collection, and so the stored points and verified
  posts, are as before.
\<close>

theorem awardPoints_errors:
  assumes "c u = Some p"
  shows "((\<exists>e. fst (awardPoints c u amount vp) = Inl e) =
            ((\<exists>post. vp = Some post \<and> js_ge amount (Fin 0 0) \<and> post \<in> set (verifiedPosts p))
             \<or> (\<exists>post. vp = Some post \<and> js_lt amount (Fin 0 0) \<and> post \<notin> set (verifiedPosts p))
             \<or> js_lt (js_add (points p) amount) (Fin 0 0)
             \<or> (vp \<noteq> None \<and> amount = NaN)))
         \<and> (\<forall>e. fst (awardPoints c u amount vp) = Inl e
                \<longrightarrow> snd (awardPoints c u amount vp) = c
                    \<and> snd (awardPoints c u amount vp) u = Some p)"
proof -
  have iff: "(\<exists>e. fst (awardPoints c u amount vp) = Inl e) =
            ((\<exists>post. vp = Some post \<and> js_ge amount (Fin 0 0) \<and> post \<in> set (verifiedPosts p))
             \<or> (\<exists>post. vp = Some post \<and> js_lt amount (Fin 0 0) \<and> post \<notin> set (verifiedPosts p))
             \<or> js_lt (js_add (points p) amount) (Fin 0 0)
             \<or> (vp \<noteq> None \<and> amount = NaN))"
    unfolding awardPoints_error_iff [of c u p amount vp, OF assms]
      checkVerifiedPost_fails [of amount vp "verifiedPosts p"]
    by blast
  have same: "snd (awardPoints c u amount vp) = c \<and> snd (awardPoints c u amount vp) u = Some p"
    if "fst (awardPoints c u amount vp) = Inl e" for e
    using awardPoints_error_unchanged [OF that] assms by simp
  from iff same show ?thesis by blast
qed

theorem awardPoints_errors_witness:
  "examplePointStore 1 = Some examplePoints
   \<and> awardPoints examplePointStore 1 (Fin 3 0) (Some 5) = (Inl InvalidPointAwardError, examplePointStore)
   \<and> awardPoints examplePointStore 1 (Fin (- 3) 0) (Some 6) = (Inl InvalidPointAwardError, examplePointStore)
   \<and> awardPoints examplePointStore 1 (Fin (- 11) 0) None = (Inl NotAllowedError, examplePointStore)
   \<and> (\<exists>e. fst (awardPoints examplePointStore 1 NaN (Some 6)) = Inl e)
   \<and> \<not> (\<exists>e. fst (awardPoints examplePointStore 1 (Fin 3 0) (Some 6)) = Inl e)"
proof -
  have h: "examplePointStore 1 = Some examplePoints"
    by (simp add: examplePointStore_def)
  have vs: "verifiedPosts examplePoints = [5]" "points examplePoints = Fin 10 0"
    by (simp_all add: examplePoints_def)
  have plus: "js_add (Fin 10 0) (Fin 3 0) = Fin 7318349394477056 (- 49)"
    by (simp add: nearestDouble_def exponentOf_def shiftFrac_def roundHalfEven_def)
  have minus: "js_add (Fin 10 0) (Fin (- 11) 0) = Fin (- 4503599627370496) (- 52)"
    by (simp add: nearestDouble_def exponentOf_def shiftFrac_def roundHalfEven_def)
  have neg: "js_lt (Fin (- 4503599627370496) (- 52)) (Fin 0 0)"
    "\<not> js_lt (Fin 7318349394477056 (- 49)) (Fin 0 0)"
    "js_ge (Fin 3 0) (Fin 0 0)" "js_lt (Fin (- 3) 0) (Fin 0 0)"
    by (simp_all add: pow2_def)
  have a: "awardPoints examplePointStore 1 (Fin 3 0) (Some 5) = (Inl InvalidPointAwardError, examplePointStore)"
    using h vs by (simp add: awardPoints_def checkVerifiedPost_def readOne_def pow2_def)
  have b: "awardPoints examplePointStore 1 (Fin (- 3) 0) (Some 6) = (Inl InvalidPointAwardError, examplePointStore)"
    using h vs by (simp add: awardPoints_def checkVerifiedPost_def readOne_def pow2_def)
  have c: "awardPoints examplePointStore 1 (Fin (- 11) 0) None = (Inl NotAllowedError, examplePointStore)"
    using h vs minus neg(1) by (simp add: awardPoints_def checkVerifiedPost_def readOne_def)
  have d: "\<exists>e. fst (awardPoints examplePointStore 1 NaN (Some 6)) = Inl e"
    using awardPoints_errors [of examplePointStore 1 examplePoints NaN "Some 6"] h by blast
  have e: "\<not> (\<exists>e. fst (awardPoints examplePointStore 1 (Fin 3 0) (Some 6)) = Inl e)"
    using awardPoints_errors [of examplePointStore 1 examplePoints "Fin 3 0" "Some 6"] h vs plus neg
      js_sign_exclusive [of "Fin 3 0"]
    by auto
  from h a b c d e show ?thesis by blast
qed

section \<open>getCompletedPercentage\<close>

lemma count_below: "length (filter (\<lambda>i. i < k) [0..<n]) = min k n"
  by (induction n) auto

lemma manyTasks_counts:
  "length manyTasks = 160" "length (filter completed manyTasks) = 23"
  by (simp_all add: manyTasks_def filter_map comp_def count_below)

lemma quotient_23_160: "js_div (ofCount 23) (ofCount 160) = Fin 5179139571476070 (- 55)"
  by (simp add: ofCount_def nearestDouble_def exponentOf_def shiftFrac_def roundHalfEven_def)

lemma percentage_23_160: "js_mul (Fin 5179139571476070 (- 55)) (Fin 100 0) = Fin 8092405580431359 (- 49)"
  by (simp add: nearestDouble_def exponentOf_def shiftFrac_def roundHalfEven_def)

lemma scaled_23_160: "js_mul (Fin 8092405580431359 (- 49)) (Fin 100 0) = Fin 6322191859711999 (- 42)"
  by (simp add: nearestDouble_def exponentOf_def shiftFrac_def roundHalfEven_def)

lemma rounded_23_160: "Math_round (Fin 6322191859711999 (- 42)) = Fin 1437 0"
  by simp

lemma hundredth_1437: "js_div (Fin 1437 0) (Fin 100 0) = nearestDouble 1437 100 0"
  by simp

lemma nearest_1437: "nearestDouble 1437 100 0 = Fin 8089590830664253 (- 49)"
  by (simp add: nearestDouble_def exponentOf_def shiftFrac_def roundHalfEven_def)

lemma nearest_1438: "nearestDouble 1438 100 0 = Fin 8095220330198467 (- 49)"
  by (simp add: nearestDouble_def exponentOf_def shiftFrac_def roundHalfEven_def)

text \<open>
  The two values the specification names are as it says: 0 for a record without tasks, and
  for one completed task of three the double nearest to \<open>3333 / 100\<close>, that is \<open>33.33\<close>.
\<close>

lemma getCompletedPercentage_empty:
  assumes "c u = Some d" and "weeklyTasks d = []"
  shows "getCompletedPercentage c u = Inr (Fin 0 0)"
  using assms by (simp add: getCompletedPercentage_def getTrackingDoc_def readOne_def)

lemma getCompletedPercentage_third:
  assumes "c u = Some d" and "length (weeklyTasks d) = 3"
    and "length (filter completed (weeklyTasks d)) = 1"
  shows "getCompletedPercentage c u = Inr (nearestDouble 3333 100 0)"
  using assms
  by (simp add: getCompletedPercentage_def getTrackingDoc_def readOne_def ofCount_def
      nearestDouble_def exponentOf_def shiftFrac_def roundHalfEven_def)

text \<open>
  C5 at 160 tasks of which 23 are completed. The claim asks for \<open>23 / 160 * 100 = 14.375\<close>
  rounded to two decimals, half up: \<open>14.38\<close>, the double nearest to \<open>1438 / 100\<close>. The code
  computes in doubles: \<open>23 / 160\<close> is rounded, its product with 100 is
  \<open>14.374999999999998\<close>, the product of that with 100 is \<open>1437.4999999999998\<close>,
  \<open>Math.round\<close> gives 1437, and the result is \<open>14.37\<close>, the double nearest to \<open>1437 / 100\<close>.
\<close>

theorem getCompletedPercentage_tie:
  assumes "c u = Some d" and "length (weeklyTasks d) = 160"
    and "length (filter completed (weeklyTasks d)) = 23"
  shows "getCompletedPercentage c u = Inr (nearestDouble 1437 100 0)
         \<and> \<lfloor>(23 / 160 :: rat) * 100 * 100 + 1 / 2\<rfloor> = 1438
         \<and> nearestDouble 1437 100 0 \<noteq> nearestDouble 1438 100 0
         \<and> valueOf (nearestDouble 1437 100 0) < valueOf (nearestDouble 1438 100 0)"
proof -
  have run: "getCompletedPercentage c u = Inr (nearestDouble 1437 100 0)"
    using assms
    by (simp add: getCompletedPercentage_def getTrackingDoc_def readOne_def quotient_23_160
        percentage_23_160 scaled_23_160 rounded_23_160 hundredth_1437 del: js_div.simps js_mul.simps
        Math_round.simps)
  have exact: "\<lfloor>(23 / 160 :: rat) * 100 * 100 + 1 / 2\<rfloor> = 1438"
    by simp
  have differ: "nearestDouble 1437 100 0 \<noteq> nearestDouble 1438 100 0"
    unfolding nearest_1437 nearest_1438 by simp
  have below: "valueOf (nearestDouble 1437 100 0) < valueOf (nearestDouble 1438 100 0)"
    unfolding nearest_1437 nearest_1438 by (simp add: pow2_def)
  from run exact differ below show ?thesis by blast
qed

theorem getCompletedPercentage_tie_witness:
  "(Map.empty(1 \<mapsto> exampleDoc\<lparr>weeklyTasks := manyTasks\<rparr>)) 1 = Some (exampleDoc\<lparr>weeklyTasks := manyTasks\<rparr>)
   \<and> length (weeklyTasks (exampleDoc\<lparr>weeklyTasks := manyTasks\<rparr>)) = 160
   \<and> length (filter completed (weeklyTasks (exampleDoc\<lparr>weeklyTasks := manyTasks\<rparr>))) = 23
   \<and> getCompletedPercentage (Map.empty(1 \<mapsto> exampleDoc\<lparr>weeklyTasks := manyTasks\<rparr>)) 1
       = Inr (Fin 8089590830664253 (- 49))"
proof -
  let ?d = "exampleDoc\<lparr>weeklyTasks := manyTasks\<rparr>"
  have h1: "(Map.empty(1 \<mapsto> ?d)) 1 = Some ?d" by simp
  have h2: "length (weeklyTasks ?d) = 160" by (simp add: manyTasks_counts)
  have h3: "length (filter completed (weeklyTasks ?d)) = 23" by (simp add: manyTasks_counts)
  from getCompletedPercentage_tie [of "Map.empty(1 \<mapsto> ?d)" 1 ?d, OF h1 h2 h3]
  have "getCompletedPercentage (Map.empty(1 \<mapsto> ?d)) 1 = Inr (nearestDouble 1437 100 0)"
    by blast
  with h1 h2 h3 show ?thesis unfolding nearest_1437 by blast
qed

end
